theory Spec2Isabelle
  imports Complex_Main "HOL-Library.Sublist"
begin

section \<open>Data model of \<^verbatim>\<open>src/backend/main.py\<close>\<close>

text \<open>
  Coordinates, radii, angles and lengths are Python floats in the source; they are
  modelled as \<^typ>\<open>real\<close>, so the theorems below speak about the arithmetic the code
  writes down, without the rounding or the infinities of IEEE doubles. Two places where a
  double is visible in the result are kept. The squares in \<^verbatim>\<open>distance_to\<close> raise
  \<^verbatim>\<open>OverflowError\<close> when they leave the range of a double, the one arithmetic exception the
  source can meet on finite coordinates. And the built-in \<^verbatim>\<open>round\<close> is a parameter of the
  pipeline: how it breaks a tie depends on the binary expansion of the double, which a real
  number does not have.

  A Python \<^verbatim>\<open>str\<close> is modelled as a \<^typ>\<open>string\<close> with one \<^typ>\<open>char\<close> per code point; the
  accented letters of the source's messages are written by their code points
  (\<^verbatim>\<open>0xE1\<close> is a-acute, \<^verbatim>\<open>0xED\<close> is i-acute, \<^verbatim>\<open>0xF1\<close> is n-tilde).

  An exception is modelled by its message \<^verbatim>\<open>str(e)\<close>; a read that may raise has type
  \<open>exn + 'a\<close>, with \<open>Inl\<close> for the exception.
\<close>

type_synonym exn = string

datatype point = Point (px: real) (py: real)

text \<open>The value \<^verbatim>\<open>distance_to\<close> returns.\<close>

definition distance_to :: "point \<Rightarrow> point \<Rightarrow> real" where
  "distance_to self other = sqrt ((px self - px other)\<^sup>2 + (py self - py other)\<^sup>2)"

text \<open>
  The call of \<^verbatim>\<open>distance_to\<close>. \<^verbatim>\<open>v ** 2\<close> raises \<^verbatim>\<open>OverflowError\<close> when the double nearest to
  the square is infinite, that is from \<open>2\<^sup>1\<^sup>0\<^sup>2\<^sup>4 - 2\<^sup>9\<^sup>7\<^sup>0\<close> on; the sum and the square root raise
  nothing. The message is \<^verbatim>\<open>str(e)\<close> of that exception, with its two quotation marks
  (\<^verbatim>\<open>0x27\<close>).
\<close>

definition overflow_error :: exn where
  "overflow_error =
     ''(34, '' @ [CHR 0x27] @ ''Numerical result out of range'' @ [CHR 0x27] @ '')''"

definition square :: "real \<Rightarrow> exn + real" where
  "square v = (if 2 ^ 1024 - 2 ^ 970 \<le> v\<^sup>2 then Inl overflow_error else Inr (v\<^sup>2))"

definition distance_to_call :: "point \<Rightarrow> point \<Rightarrow> exn + real" where
  "distance_to_call self other =
     (case square (px self - px other) of
        Inl ex \<Rightarrow> Inl ex
      | Inr dx2 \<Rightarrow>
          (case square (py self - py other) of
             Inl ex \<Rightarrow> Inl ex
           | Inr dy2 \<Rightarrow> Inr (sqrt (dx2 + dy2))))"

datatype bounding_box = BoundingBox (min_x: real) (min_y: real) (max_x: real) (max_y: real)

definition width :: "bounding_box \<Rightarrow> real" where
  "width b = max_x b - min_x b"

definition height :: "bounding_box \<Rightarrow> real" where
  "height b = max_y b - min_y b"

definition area :: "bounding_box \<Rightarrow> real" where
  "area b = width b * height b"

text \<open>
  The drawing entity handed over by the file reader. The source never names its class:
  it calls \<^verbatim>\<open>entity.dxftype()\<close> and reads attributes of \<^verbatim>\<open>entity.dxf\<close>, inside
  \<^verbatim>\<open>try\<close> blocks. Each attribute the source reads is a field here, and a read that raises
  is \<open>Inl\<close>.
  \<^item> \<open>dxf_start\<close>, \<open>dxf_end\<close>, \<open>dxf_center\<close>: the reads of both coordinates with their
    \<^verbatim>\<open>float(...)\<close> conversion;
  \<^item> \<open>get_points\<close> (LWPOLYLINE) and \<open>vertices\<close> (POLYLINE): the call may raise as a whole,
    and so may the conversion of each vertex while the loop runs;
  \<^item> \<open>dxf_invisible\<close>: \<open>None\<close> when \<^verbatim>\<open>hasattr(entity.dxf, 'invisible')\<close> is false,
    \<open>Some (Inl e)\<close> when the read raises something that \<^verbatim>\<open>hasattr\<close> does not swallow,
    \<open>Some (Inr b)\<close> when it yields a value of truthiness \<open>b\<close>.
\<close>

record entity =
  dxftype :: string
  dxf_layer :: "exn + string"
  dxf_invisible :: "(exn + bool) option"
  dxf_start :: "exn + point"
  dxf_end :: "exn + point"
  get_points :: "exn + (exn + point) list"
  vertices :: "exn + (exn + point) list"
  dxf_center :: "exn + point"
  dxf_radius :: "exn + real"
  dxf_start_angle :: "exn + real"
  dxf_end_angle :: "exn + real"

record processed_entity =
  entity_type :: string
  points :: "point list"
  length_mm :: real
  layer :: string
  is_valid :: bool
  rejection_reason :: "string option"

section \<open>Sampler: \<^verbatim>\<open>get_entity_points\<close> and \<^verbatim>\<open>calculate_entity_length\<close>\<close>

text \<open>
  The vertex loops append one point per vertex; when a vertex raises, the handler keeps
  the points appended so far.
\<close>

fun read_vertices :: "(exn + point) list \<Rightarrow> point list" where
  "read_vertices [] = []"
| "read_vertices (Inl e # rest) = []"
| "read_vertices (Inr p # rest) = p # read_vertices rest"

definition radians :: "real \<Rightarrow> real" where
  "radians deg = deg * (pi / 180)"

definition circle_points :: "point \<Rightarrow> real \<Rightarrow> point list" where
  "circle_points center radius =
     map (\<lambda>i. let angle = 2 * pi * real i / 16
               in Point (px center + radius * cos angle) (py center + radius * sin angle))
         [0..<16]"

definition arc_points :: "point \<Rightarrow> real \<Rightarrow> real \<Rightarrow> real \<Rightarrow> point list" where
  "arc_points center radius start_angle end_angle =
     map (\<lambda>i. let angle = start_angle + (end_angle - start_angle) * real i / 16
               in Point (px center + radius * cos angle) (py center + radius * sin angle))
         [0..<16 + 1]"

definition get_entity_points :: "entity \<Rightarrow> point list" where
  "get_entity_points e =
     (if dxftype e = ''LINE'' then
        (case dxf_start e of Inl ex \<Rightarrow> []
         | Inr s \<Rightarrow> (case dxf_end e of Inl ex \<Rightarrow> [] | Inr t \<Rightarrow> [s, t]))
      else if dxftype e = ''LWPOLYLINE'' then
        (case get_points e of Inl ex \<Rightarrow> [] | Inr vs \<Rightarrow> read_vertices vs)
      else if dxftype e = ''POLYLINE'' then
        (case vertices e of Inl ex \<Rightarrow> [] | Inr vs \<Rightarrow> read_vertices vs)
      else if dxftype e = ''CIRCLE'' then
        (case dxf_center e of Inl ex \<Rightarrow> []
         | Inr c \<Rightarrow> (case dxf_radius e of Inl ex \<Rightarrow> [] | Inr r \<Rightarrow> circle_points c r))
      else if dxftype e = ''ARC'' then
        (case dxf_center e of Inl ex \<Rightarrow> []
         | Inr c \<Rightarrow>
        (case dxf_radius e of Inl ex \<Rightarrow> []
         | Inr r \<Rightarrow>
        (case dxf_start_angle e of Inl ex \<Rightarrow> []
         | Inr sa \<Rightarrow>
        (case dxf_end_angle e of Inl ex \<Rightarrow> []
         | Inr ea \<Rightarrow> arc_points c r (radians sa) (radians ea)))))
      else [])"

text \<open>
  The loop that adds up the segments of a polyline; it is left with the exception of the
  first segment whose distance raises.
\<close>

fun path_length :: "point list \<Rightarrow> exn + real" where
  "path_length (p # q # rest) =
     (case distance_to_call p q of
        Inl ex \<Rightarrow> Inl ex
      | Inr d \<Rightarrow> (case path_length (q # rest) of Inl ex \<Rightarrow> Inl ex | Inr t \<Rightarrow> Inr (d + t)))"
| "path_length ps = Inr 0"

text \<open>Every exception inside \<^verbatim>\<open>calculate_entity_length\<close> is caught there, and 0 is returned.\<close>

definition calculate_entity_length :: "entity \<Rightarrow> point list \<Rightarrow> real" where
  "calculate_entity_length e pts =
     (if dxftype e = ''LINE'' then
        (case pts of
           p # q # rest \<Rightarrow> (case distance_to_call p q of Inl ex \<Rightarrow> 0 | Inr d \<Rightarrow> d)
         | _ \<Rightarrow> 0)
      else if dxftype e = ''LWPOLYLINE'' \<or> dxftype e = ''POLYLINE'' then
        (case path_length pts of Inl ex \<Rightarrow> 0 | Inr total_length \<Rightarrow> total_length)
      else if dxftype e = ''CIRCLE'' then
        (case dxf_radius e of Inl ex \<Rightarrow> 0 | Inr r \<Rightarrow> 2 * pi * r)
      else if dxftype e = ''ARC'' then
        (case dxf_radius e of Inl ex \<Rightarrow> 0
         | Inr r \<Rightarrow>
        (case dxf_start_angle e of Inl ex \<Rightarrow> 0
         | Inr sa \<Rightarrow>
        (case dxf_end_angle e of Inl ex \<Rightarrow> 0
         | Inr ea \<Rightarrow> \<bar>radians ea - radians sa\<bar> * r)))
      else 0)"

section \<open>Number formatting and rounding\<close>


definition round_half_even :: "real \<Rightarrow> int" where
  "round_half_even v =
     (let f = \<lfloor>v\<rfloor>; d = v - of_int f
      in if d < 1 / 2 then f else if 1 / 2 < d then f + 1 else if even f then f else f + 1)"

definition py_round :: "real \<Rightarrow> nat \<Rightarrow> real" where
  "py_round v ndigits = of_int (round_half_even (v * 10 ^ ndigits)) / 10 ^ ndigits"

definition digit_char :: "nat \<Rightarrow> char" where
  "digit_char d = ''0123456789'' ! d"

fun show_nat :: "nat \<Rightarrow> string" where
  "show_nat n = (if n < 10 then [digit_char n] else show_nat (n div 10) @ [digit_char (n mod 10)])"

declare show_nat.simps [simp del]

definition fmt2 :: "real \<Rightarrow> string" where
  "fmt2 v =
     (let n = nat (round_half_even (\<bar>v\<bar> * 100))
      in (if v < 0 then ''-'' else '''') @ show_nat (n div 100) @ ''.'' @
         [digit_char (n div 10 mod 10), digit_char (n mod 10)])"

section \<open>Phantom classifier: \<^verbatim>\<open>is_phantom_entity\<close>\<close>

definition char_upper :: "char \<Rightarrow> char" where
  "char_upper c =
     (case map_of (zip ''abcdefghijklmnopqrstuvwxyz'' ''ABCDEFGHIJKLMNOPQRSTUVWXYZ'') c of
        Some u \<Rightarrow> u
      | None \<Rightarrow> c)"

text \<open>\<^verbatim>\<open>str.upper()\<close> on the ASCII letters; every other character is left as it is.\<close>

definition upper :: "string \<Rightarrow> string" where
  "upper s = map char_upper s"

definition phantom_layers :: "string set" where
  "phantom_layers = {''DEFPOINTS'', ''PHANTOM'', ''HIDDEN'', ''CONSTRUCTION'', ''TEMP''}"

text \<open>
  Rule 3, for a line with its two endpoints: \<open>Inl\<close> when a distance raises, \<open>Inr (Some reason)\<close>
  when one of the three tests rejects the line, \<open>Inr None\<close> when none does.
\<close>

definition line_rules :: "point \<Rightarrow> point \<Rightarrow> point \<Rightarrow> real \<Rightarrow> exn + string option" where
  "line_rules start en design_center max_design_dimension =
     (if (\<bar>px start\<bar> < 0.001 \<and> \<bar>py start\<bar> < 0.001) \<or> (\<bar>px en\<bar> < 0.001 \<and> \<bar>py en\<bar> < 0.001)
      then Inr (Some (''L'' @ [CHR 0xED] @ ''nea conecta con origen (0,0)''))
      else
        (case distance_to_call start en of
           Inl ex \<Rightarrow> Inl ex
         | Inr line_length \<Rightarrow>
             if line_length > max_design_dimension * 10
             then Inr (Some (''L'' @ [CHR 0xED] @ ''nea demasiado larga: '' @ fmt2 line_length @
                             ''mm''))
             else
               let line_center = Point ((px start + px en) / 2) ((py start + py en) / 2) in
               (case distance_to_call line_center design_center of
                  Inl ex \<Rightarrow> Inl ex
                | Inr distance_to_design \<Rightarrow>
                    if distance_to_design > max_design_dimension * 5
                    then Inr (Some (''L'' @ [CHR 0xED] @ ''nea alejada del dise'' @ [CHR 0xF1] @
                                    ''o: '' @ fmt2 distance_to_design @ ''mm''))
                    else Inr None)))"

text \<open>
  The body of the \<^verbatim>\<open>try\<close> block, rules 1 to 4: \<open>Inl\<close> when a read or a distance raises,
  \<open>Inr (Some v)\<close> when a \<^verbatim>\<open>return\<close> inside the block is reached, \<open>Inr None\<close> when the block
  falls through.
\<close>

definition phantom_rules ::
    "entity \<Rightarrow> point list \<Rightarrow> point \<Rightarrow> real \<Rightarrow> exn + (bool \<times> string) option" where
  "phantom_rules e pts design_center max_design_dimension =
     (case dxf_layer e of Inl ex \<Rightarrow> Inl ex
      | Inr l \<Rightarrow>
        let layer_name = upper l in
        if layer_name \<in> phantom_layers then Inr (Some (True, ''Capa fantasma: '' @ layer_name))
        else
          (case dxf_invisible e of
             Some (Inl ex) \<Rightarrow> Inl ex
           | Some (Inr True) \<Rightarrow> Inr (Some (True, ''Entidad invisible''))
           | _ \<Rightarrow>
             (case (if dxftype e = ''LINE''
                    then (case pts of start # en # rest \<Rightarrow>
                            line_rules start en design_center max_design_dimension
                          | _ \<Rightarrow> Inr None)
                    else Inr None) of
                Inl ex \<Rightarrow> Inl ex
              | Inr (Some reason) \<Rightarrow> Inr (Some (True, reason))
              | Inr None \<Rightarrow>
                (case find (\<lambda>p. \<bar>px p\<bar> > 50000 \<or> \<bar>py p\<bar> > 50000) pts of
                   Some p \<Rightarrow>
                     Inr (Some (True, ''Coordenadas extremas: ('' @ fmt2 (px p) @ '', '' @
                                      fmt2 (py p) @ '')''))
                 | None \<Rightarrow> Inr None))))"

definition is_phantom_entity :: "entity \<Rightarrow> point list \<Rightarrow> point \<Rightarrow> real \<Rightarrow> bool \<times> string" where
  "is_phantom_entity e pts design_center max_design_dimension =
     (if pts = [] then (True, ''Sin puntos v'' @ [CHR 0xE1] @ ''lidos'')
      else
        (case phantom_rules e pts design_center max_design_dimension of
           Inl ex \<Rightarrow> (True, ''Error procesando entidad: '' @ ex)
         | Inr (Some verdict) \<Rightarrow> verdict
         | Inr None \<Rightarrow> (False, ''Entidad v'' @ [CHR 0xE1] @ ''lida'')))"

section \<open>Design statistics and bounding box\<close>

definition recognized :: "string \<Rightarrow> bool" where
  "recognized t \<longleftrightarrow> t \<in> set [''LINE'', ''LWPOLYLINE'', ''POLYLINE'', ''CIRCLE'', ''ARC'']"

text \<open>Python's \<^verbatim>\<open>min\<close> and \<^verbatim>\<open>max\<close> of a non-empty sequence, as the left-to-right scan.\<close>

definition py_min :: "real list \<Rightarrow> real" where
  "py_min vs = foldl min (hd vs) (tl vs)"

definition py_max :: "real list \<Rightarrow> real" where
  "py_max vs = foldl max (hd vs) (tl vs)"

definition all_sample_points :: "entity list \<Rightarrow> point list" where
  "all_sample_points entities =
     concat (map get_entity_points (filter (\<lambda>e. recognized (dxftype e)) entities))"

definition get_design_statistics :: "entity list \<Rightarrow> point \<times> real" where
  "get_design_statistics entities =
     (let all_points = all_sample_points entities in
      if all_points = [] then (Point 0 0, 1000)
      else
        let center_x = sum_list (map px all_points) / real (length all_points);
            center_y = sum_list (map py all_points) / real (length all_points);
            lo_x = py_min (map px all_points);
            hi_x = py_max (map px all_points);
            lo_y = py_min (map py all_points);
            hi_y = py_max (map py all_points)
        in (Point center_x center_y, max (hi_x - lo_x) (hi_y - lo_y)))"

definition calculate_bounding_box :: "processed_entity list \<Rightarrow> bounding_box" where
  "calculate_bounding_box entities =
     (if entities = [] then BoundingBox 0 0 0 0
      else
        let all_points = concat (map points entities) in
        if all_points = [] then BoundingBox 0 0 0 0
        else BoundingBox (py_min (map px all_points)) (py_min (map py all_points))
                         (py_max (map px all_points)) (py_max (map py all_points)))"

section \<open>Aggregator: \<^verbatim>\<open>process_dxf_file\<close>\<close>

record processor =
  valid_entities :: "processed_entity list"
  phantom_entities :: "processed_entity list"

record statistics =
  total_entities :: nat
  n_valid_entities :: nat
  n_phantom_entities :: nat
  design_center :: point
  max_design_dimension :: real

record cut_length =
  total_mm :: real
  total_m :: real

record analysis_result =
  stats :: statistics
  bbox :: bounding_box
  cut :: cut_length
  valid :: "processed_entity list"
  phantom :: "processed_entity list"

text \<open>
  The loop over \<^verbatim>\<open>all_entities\<close>, with the two lists of the processor as the state. The
  read \<^verbatim>\<open>str(entity.dxf.layer)\<close> that fills the \<^verbatim>\<open>layer\<close> field stands outside every
  per-entity handler: when it raises, the loop is left with the exception.
\<close>

fun process_entities :: "point \<Rightarrow> real \<Rightarrow> entity list \<Rightarrow> processor \<Rightarrow> exn + processor" where
  "process_entities dc md [] self = Inr self"
| "process_entities dc md (e # rest) self =
     (if \<not> recognized (dxftype e) then process_entities dc md rest self
      else
        let pts = get_entity_points e in
        if pts = [] then process_entities dc md rest self
        else
          let (is_phantom, reason) = is_phantom_entity e pts dc md in
          (case dxf_layer e of
             Inl ex \<Rightarrow> Inl ex
           | Inr l \<Rightarrow>
             let processed =
                   \<lparr>entity_type = dxftype e, points = pts,
                    length_mm = calculate_entity_length e pts, layer = l,
                    is_valid = \<not> is_phantom,
                    rejection_reason = (if is_phantom then Some reason else None)\<rparr>
             in if is_phantom
                then process_entities dc md rest
                       (self\<lparr>phantom_entities := phantom_entities self @ [processed]\<rparr>)
                else process_entities dc md rest
                       (self\<lparr>valid_entities := valid_entities self @ [processed]\<rparr>)))"

text \<open>
  The first argument \<open>rnd\<close> is the built-in \<^verbatim>\<open>round\<close>. The second is what
  \<^verbatim>\<open>list(ezdxf.readfile(file_path).modelspace())\<close> gives: the entities, or the exception of the
  reader. \<open>Inl\<close> in the result is the dictionary with
  \<^verbatim>\<open>"success": False\<close> and the message, \<open>Inr\<close> the one with \<^verbatim>\<open>"success": True\<close>.
\<close>

definition process_dxf_file_with ::
    "(real \<Rightarrow> nat \<Rightarrow> real) \<Rightarrow> exn + entity list \<Rightarrow> exn + analysis_result" where
  "process_dxf_file_with rnd doc =
     (case doc of Inl ex \<Rightarrow> Inl ex
      | Inr all_entities \<Rightarrow>
        let (dc, md) = get_design_statistics all_entities in
        (case process_entities dc md all_entities \<lparr>valid_entities = [], phantom_entities = []\<rparr> of
           Inl ex \<Rightarrow> Inl ex
         | Inr self \<Rightarrow>
           let total_cut_length = sum_list (map length_mm (valid_entities self)) in
           Inr \<lparr>stats = \<lparr>total_entities = length all_entities,
                         n_valid_entities = length (valid_entities self),
                         n_phantom_entities = length (phantom_entities self),
                         design_center = dc,
                         max_design_dimension = md\<rparr>,
                bbox = calculate_bounding_box (valid_entities self),
                cut = \<lparr>total_mm = rnd total_cut_length 2,
                       total_m = rnd (total_cut_length / 1000) 3\<rparr>,
                valid = valid_entities self,
                phantom = phantom_entities self\<rparr>))"

text \<open>The pipeline with the rounding that breaks ties of the real number to even.\<close>

definition process_dxf_file :: "exn + entity list \<Rightarrow> exn + analysis_result" where
  "process_dxf_file doc = process_dxf_file_with py_round doc"

section \<open>Example entities\<close>

text \<open>
  Concrete entities for the evaluations below: an entity of type \<open>t\<close> on layer \<open>l\<close>, visible,
  every geometric attribute of which raises when read, and the line, polyline, circle and
  arc obtained from it by filling in the attributes of that type.
\<close>

definition blank_entity :: "string \<Rightarrow> string \<Rightarrow> entity" where
  "blank_entity t l =
     \<lparr>dxftype = t, dxf_layer = Inr l, dxf_invisible = Some (Inr False),
      dxf_start = Inl ''start'', dxf_end = Inl ''end'',
      get_points = Inl ''get_points'', vertices = Inl ''vertices'',
      dxf_center = Inl ''center'', dxf_radius = Inl ''radius'',
      dxf_start_angle = Inl ''start_angle'', dxf_end_angle = Inl ''end_angle''\<rparr>"

definition line_entity :: "string \<Rightarrow> point \<Rightarrow> point \<Rightarrow> entity" where
  "line_entity l s t = (blank_entity ''LINE'' l)\<lparr>dxf_start := Inr s, dxf_end := Inr t\<rparr>"

definition lwpolyline_entity :: "string \<Rightarrow> point list \<Rightarrow> entity" where
  "lwpolyline_entity l vs = (blank_entity ''LWPOLYLINE'' l)\<lparr>get_points := Inr (map Inr vs)\<rparr>"

definition circle_entity :: "string \<Rightarrow> point \<Rightarrow> real \<Rightarrow> entity" where
  "circle_entity l c r = (blank_entity ''CIRCLE'' l)\<lparr>dxf_center := Inr c, dxf_radius := Inr r\<rparr>"

definition arc_entity :: "string \<Rightarrow> point \<Rightarrow> real \<Rightarrow> real \<Rightarrow> real \<Rightarrow> entity" where
  "arc_entity l c r sa ea =
     (blank_entity ''ARC'' l)\<lparr>dxf_center := Inr c, dxf_radius := Inr r,
                               dxf_start_angle := Inr sa, dxf_end_angle := Inr ea\<rparr>"

text \<open>
  A drawing with one line that is kept, the same line on a phantom layer, an entity of a type
  the analysis does not know and a polyline without vertices; the result the analysis gives
  for it; and the result for a drawing of \<open>n\<close> entities none of which is sampled.
\<close>

definition sample_drawing :: "entity list" where
  "sample_drawing =
     [line_entity ''CUT'' (Point 1 1) (Point 10 1),
      line_entity ''DEFPOINTS'' (Point 1 1) (Point 10 1),
      blank_entity ''TEXT'' ''0'',
      lwpolyline_entity ''CUT'' []]"

definition sample_result :: analysis_result where
  "sample_result =
     \<lparr>stats = \<lparr>total_entities = 4, n_valid_entities = 1, n_phantom_entities = 1,
               design_center = Point (11 / 2) 1, max_design_dimension = 9\<rparr>,
      bbox = BoundingBox 1 1 10 1,
      cut = \<lparr>total_mm = 9, total_m = 9 / 1000\<rparr>,
      valid =
        [\<lparr>entity_type = ''LINE'', points = [Point 1 1, Point 10 1], length_mm = 9,
          layer = ''CUT'', is_valid = True, rejection_reason = None\<rparr>],
      phantom =
        [\<lparr>entity_type = ''LINE'', points = [Point 1 1, Point 10 1], length_mm = 9,
          layer = ''DEFPOINTS'', is_valid = False,
          rejection_reason = Some ''Capa fantasma: DEFPOINTS''\<rparr>]\<rparr>"

definition empty_result :: "nat \<Rightarrow> analysis_result" where
  "empty_result n =
     \<lparr>stats = \<lparr>total_entities = n, n_valid_entities = 0, n_phantom_entities = 0,
               design_center = Point 0 0, max_design_dimension = 1000\<rparr>,
      bbox = BoundingBox 0 0 0 0,
      cut = \<lparr>total_mm = 0, total_m = 0\<rparr>,
      valid = [],
      phantom = []\<rparr>"





lemmas fixture_defs =
  blank_entity_def line_entity_def lwpolyline_entity_def circle_entity_def arc_entity_def

section \<open>Unfolding the pipeline, and distances without overflow\<close>

lemma process_dxf_file_unfold:
  "process_dxf_file doc =
     (case doc of Inl ex \<Rightarrow> Inl ex
      | Inr all_entities \<Rightarrow>
        let (dc, md) = get_design_statistics all_entities in
        (case process_entities dc md all_entities \<lparr>valid_entities = [], phantom_entities = []\<rparr> of
           Inl ex \<Rightarrow> Inl ex
         | Inr self \<Rightarrow>
           let total_cut_length = sum_list (map length_mm (valid_entities self)) in
           Inr \<lparr>stats = \<lparr>total_entities = length all_entities,
                         n_valid_entities = length (valid_entities self),
                         n_phantom_entities = length (phantom_entities self),
                         design_center = dc,
                         max_design_dimension = md\<rparr>,
                bbox = calculate_bounding_box (valid_entities self),
                cut = \<lparr>total_mm = py_round total_cut_length 2,
                       total_m = py_round (total_cut_length / 1000) 3\<rparr>,
                valid = valid_entities self,
                phantom = phantom_entities self\<rparr>))"
  by (simp add: process_dxf_file_def process_dxf_file_with_def)

lemma square_small:
  assumes "\<bar>v\<bar> \<le> 10 ^ 6"
  shows "square v = Inr (v\<^sup>2)"
proof -
  have "v\<^sup>2 = \<bar>v\<bar>\<^sup>2"
    by simp
  also have "\<dots> \<le> (10 ^ 6)\<^sup>2"
    using assms by (intro power_mono) simp_all
  also have "\<dots> < (2 ^ 1024 - 2 ^ 970 :: real)"
    by simp
  finally show ?thesis
    by (simp add: square_def)
qed

lemma distance_to_call_small:
  assumes "\<bar>px p - px q\<bar> \<le> 10 ^ 6" and "\<bar>py p - py q\<bar> \<le> 10 ^ 6"
  shows "distance_to_call p q = Inr (distance_to p q)"
  using assms by (simp add: distance_to_call_def distance_to_def square_small)


section \<open>The classifier\<close>

lemma upper_defpoints: "upper ''defpoints'' = ''DEFPOINTS''"
  by (simp add: upper_def char_upper_def)

text \<open>Every \<^verbatim>\<open>return\<close> inside the \<^verbatim>\<open>try\<close> block returns \<^verbatim>\<open>True\<close>.\<close>

lemma phantom_rules_returns_True:
  "phantom_rules e pts dc md = Inr (Some v) \<Longrightarrow> fst v"
  by (auto simp add: phantom_rules_def Let_def
           split: sum.splits option.splits bool.splits if_splits)

lemma is_phantom_entity_valid_iff:
  "\<not> fst (is_phantom_entity e pts dc md) \<longleftrightarrow> pts \<noteq> [] \<and> phantom_rules e pts dc md = Inr None"
  by (auto simp add: is_phantom_entity_def dest: phantom_rules_returns_True
           split: sum.splits option.splits)

text \<open>
  Claim C4. When the layer name can be read and its upper-cased form is one of DEFPOINTS,
  PHANTOM, HIDDEN, CONSTRUCTION, TEMP, the classifier answers phantom for every point
  sequence, design centre and design dimension; and when the point sequence is not empty
  (so that the layer rule is the first one to match) the reason is
  \<^verbatim>\<open>Capa fantasma: \<close> followed by the upper-cased layer name.
\<close>

theorem phantom_layer_verdict:
  assumes "dxf_layer e = Inr l" and "upper l \<in> phantom_layers"
  shows "fst (is_phantom_entity e pts dc md) \<and>
         (pts \<noteq> [] \<longrightarrow>
            snd (is_phantom_entity e pts dc md) = ''Capa fantasma: '' @ upper l \<and>
            sublist (upper l) (snd (is_phantom_entity e pts dc md)))"
proof -
  have rules: "phantom_rules e pts dc md = Inr (Some (True, ''Capa fantasma: '' @ upper l))"
    using assms by (simp add: phantom_rules_def)
  have "sublist (upper l) (''Capa fantasma: '' @ upper l)"
    by (rule sublist_append_leftI)
  then show ?thesis
    using rules by (simp add: is_phantom_entity_def)
qed

theorem phantom_layer_verdict_witness:
  "dxf_layer (line_entity ''defpoints'' (Point 100 100) (Point 110 100)) = Inr ''defpoints'' \<and>
   upper ''defpoints'' \<in> phantom_layers \<and>
   get_entity_points (line_entity ''defpoints'' (Point 100 100) (Point 110 100)) =
     [Point 100 100, Point 110 100] \<and>
   is_phantom_entity (line_entity ''defpoints'' (Point 100 100) (Point 110 100))
     [Point 100 100, Point 110 100] (Point 105 100) 10 = (True, ''Capa fantasma: DEFPOINTS'')"
proof -
  let ?e = "line_entity ''defpoints'' (Point 100 100) (Point 110 100)"
  have l: "dxf_layer ?e = Inr ''defpoints''"
    by (simp add: fixture_defs)
  have m: "upper ''defpoints'' \<in> phantom_layers"
    by (simp add: upper_defpoints phantom_layers_def)
  have p: "get_entity_points ?e = [Point 100 100, Point 110 100]"
    by (simp add: get_entity_points_def fixture_defs)
  from phantom_layer_verdict [OF l m, of "[Point 100 100, Point 110 100]" "Point 105 100" 10]
  have "is_phantom_entity ?e [Point 100 100, Point 110 100] (Point 105 100) 10 =
          (True, ''Capa fantasma: DEFPOINTS'')"
    by (simp add: upper_defpoints prod_eq_iff)
  with l m p show ?thesis by simp
qed

lemma origin_text_mentions_origin:
  "sublist ''origen'' (''L'' @ [CHR 0xED] @ ''nea conecta con origen (0,0)'')"
  by (simp add: sublist_code)

text \<open>
  Claim C3, as the code has it. For a LINE sampled to its two endpoints, one of which is
  closer than 0.001 to the origin in both axes, the classifier answers phantom whatever the
  layer and the visibility are. The reason is \<^verbatim>\<open>Linea conecta con origen (0,0)\<close> (with i-acute)
  when no earlier rule decides: the layer name can be read, its upper-cased form is not in
  the rejection set, and the entity is not marked invisible.
\<close>

theorem line_to_origin_phantom:
  assumes "dxftype e = ''LINE''" and "get_entity_points e = [s, t]"
    and "(\<bar>px s\<bar> < 0.001 \<and> \<bar>py s\<bar> < 0.001) \<or> (\<bar>px t\<bar> < 0.001 \<and> \<bar>py t\<bar> < 0.001)"
  shows "fst (is_phantom_entity e (get_entity_points e) dc md) \<and>
         (\<forall>l. dxf_layer e = Inr l \<and> upper l \<notin> phantom_layers \<and>
              (dxf_invisible e = None \<or> dxf_invisible e = Some (Inr False)) \<longrightarrow>
              snd (is_phantom_entity e (get_entity_points e) dc md) =
                ''L'' @ [CHR 0xED] @ ''nea conecta con origen (0,0)'' \<and>
              sublist ''origen'' (snd (is_phantom_entity e (get_entity_points e) dc md)))"
proof -
  have lr: "line_rules s t dc md =
              Inr (Some (''L'' @ [CHR 0xED] @ ''nea conecta con origen (0,0)''))"
    using assms(3) by (simp add: line_rules_def)
  have "phantom_rules e [s, t] dc md \<noteq> Inr None"
    using assms(1) lr
    by (auto simp add: phantom_rules_def Let_def split: sum.splits option.splits bool.splits)
  then have verdict: "fst (is_phantom_entity e [s, t] dc md)"
    using is_phantom_entity_valid_iff [of e "[s, t]" dc md] by blast
  have reason: "snd (is_phantom_entity e [s, t] dc md) =
                  ''L'' @ [CHR 0xED] @ ''nea conecta con origen (0,0)''"
    if "dxf_layer e = Inr l" "upper l \<notin> phantom_layers"
       "dxf_invisible e = None \<or> dxf_invisible e = Some (Inr False)" for l
    using that assms(1) lr
    by (auto simp add: is_phantom_entity_def phantom_rules_def)
  show ?thesis
    using verdict reason origin_text_mentions_origin by (simp add: assms(2))
qed

theorem line_to_origin_phantom_witness:
  "dxftype (line_entity ''CUT'' (Point 0 0) (Point 10 0)) = ''LINE'' \<and>
   get_entity_points (line_entity ''CUT'' (Point 0 0) (Point 10 0)) = [Point 0 0, Point 10 0] \<and>
   dxf_layer (line_entity ''CUT'' (Point 0 0) (Point 10 0)) = Inr ''CUT'' \<and>
   upper ''CUT'' \<notin> phantom_layers \<and>
   dxf_invisible (line_entity ''CUT'' (Point 0 0) (Point 10 0)) = Some (Inr False) \<and>
   is_phantom_entity (line_entity ''CUT'' (Point 0 0) (Point 10 0)) [Point 0 0, Point 10 0]
     (Point 5 0) 10 = (True, ''L'' @ [CHR 0xED] @ ''nea conecta con origen (0,0)'')"
proof -
  let ?e = "line_entity ''CUT'' (Point 0 0) (Point 10 0)"
  have t: "dxftype ?e = ''LINE''" and l: "dxf_layer ?e = Inr ''CUT''"
    and i: "dxf_invisible ?e = Some (Inr False)"
    by (simp_all add: fixture_defs)
  have p: "get_entity_points ?e = [Point 0 0, Point 10 0]"
    by (simp add: get_entity_points_def fixture_defs)
  have u: "upper ''CUT'' \<notin> phantom_layers"
    by (simp add: upper_def char_upper_def phantom_layers_def)
  have o: "(\<bar>px (Point 0 0)\<bar> < 0.001 \<and> \<bar>py (Point 0 0)\<bar> < 0.001) \<or>
           (\<bar>px (Point 10 0)\<bar> < 0.001 \<and> \<bar>py (Point 10 0)\<bar> < 0.001)"
    by simp
  from line_to_origin_phantom [OF t p o, of "Point 5 0" 10] l u i
  have "is_phantom_entity ?e [Point 0 0, Point 10 0] (Point 5 0) 10 =
          (True, ''L'' @ [CHR 0xED] @ ''nea conecta con origen (0,0)'')"
    by (simp add: p prod_eq_iff)
  with t l i p u show ?thesis by simp
qed

text \<open>
  Claim C3, as stated, fails on a phantom layer: the line from the origin to \<open>(10, 0)\<close> on
  layer DEFPOINTS is phantom, and its reason names the layer and not the origin.
\<close>

theorem line_to_origin_reason_counterexample:
  "dxftype (line_entity ''DEFPOINTS'' (Point 0 0) (Point 10 0)) = ''LINE'' \<and>
   get_entity_points (line_entity ''DEFPOINTS'' (Point 0 0) (Point 10 0)) =
     [Point 0 0, Point 10 0] \<and>
   is_phantom_entity (line_entity ''DEFPOINTS'' (Point 0 0) (Point 10 0))
     [Point 0 0, Point 10 0] (Point 5 0) 10 = (True, ''Capa fantasma: DEFPOINTS'') \<and>
   \<not> sublist ''origen'' ''Capa fantasma: DEFPOINTS''"
  by (simp add: get_entity_points_def is_phantom_entity_def phantom_rules_def fixture_defs
        upper_def char_upper_def phantom_layers_def sublist_code)

section \<open>The sampler\<close>

lemma on_circle:
  "distance_to (Point (px c + r * cos a) (py c + r * sin a)) c = \<bar>r\<bar>"
proof -
  have "(r * cos a)\<^sup>2 + (r * sin a)\<^sup>2 = r\<^sup>2 * ((cos a)\<^sup>2 + (sin a)\<^sup>2)"
    by (simp only: power_mult_distrib distrib_left)
  also have "\<dots> = r\<^sup>2"
    by simp
  finally show ?thesis
    by (simp add: distance_to_def)
qed

text \<open>
  Claim C5. A CIRCLE whose centre \<open>c\<close> and radius \<open>r\<close> can be read is sampled to exactly 16
  points, the \<open>i\<close>-th at angle \<open>2\<pi>i/16\<close> from the positive x-axis around \<open>c\<close>; every sample
  is at distance \<open>\<bar>r\<bar>\<close> from \<open>c\<close>, which is \<open>r\<close> for a radius that is not negative; and the length
  reported is the closed form \<open>2\<pi>r\<close>, whatever the samples are.
\<close>

theorem circle_sampling:
  assumes "dxftype e = ''CIRCLE''" and "dxf_center e = Inr c" and "dxf_radius e = Inr r"
  shows "length (get_entity_points e) = 16 \<and>
         (\<forall>i<16. get_entity_points e ! i =
            Point (px c + r * cos (2 * pi * real i / 16)) (py c + r * sin (2 * pi * real i / 16))) \<and>
         (\<forall>p\<in>set (get_entity_points e). distance_to p c = \<bar>r\<bar>) \<and>
         (0 \<le> r \<longrightarrow> (\<forall>p\<in>set (get_entity_points e). distance_to p c = r)) \<and>
         calculate_entity_length e (get_entity_points e) = 2 * pi * r"
proof -
  have pts: "get_entity_points e = circle_points c r"
    using assms by (simp add: get_entity_points_def)
  have len: "length (circle_points c r) = 16"
    by (simp add: circle_points_def)
  have nth: "circle_points c r ! i =
      Point (px c + r * cos (2 * pi * real i / 16)) (py c + r * sin (2 * pi * real i / 16))"
    if "i < 16" for i
    using that unfolding circle_points_def by (simp only: nth_map length_upt nth_upt) (simp add: Let_def)
  have dist: "distance_to p c = \<bar>r\<bar>" if "p \<in> set (circle_points c r)" for p
    using that by (auto simp add: circle_points_def on_circle Let_def simp del: upt_Suc)
  have clen: "calculate_entity_length e pts = 2 * pi * r" for pts
    using assms by (simp add: calculate_entity_length_def)
  show ?thesis
    using len nth dist clen by (simp add: pts)
qed

theorem circle_sampling_witness:
  "dxftype (circle_entity ''CUT'' (Point 2 3) 5) = ''CIRCLE'' \<and>
   dxf_center (circle_entity ''CUT'' (Point 2 3) 5) = Inr (Point 2 3) \<and>
   dxf_radius (circle_entity ''CUT'' (Point 2 3) 5) = Inr 5 \<and>
   length (get_entity_points (circle_entity ''CUT'' (Point 2 3) 5)) = 16 \<and>
   get_entity_points (circle_entity ''CUT'' (Point 2 3) 5) ! 0 = Point 7 3 \<and>
   get_entity_points (circle_entity ''CUT'' (Point 2 3) 5) ! 4 = Point 2 8 \<and>
   get_entity_points (circle_entity ''CUT'' (Point 2 3) 5) ! 8 = Point (- 3) 3 \<and>
   Point 2 8 \<in> set (get_entity_points (circle_entity ''CUT'' (Point 2 3) 5)) \<and>
   distance_to (Point 2 8) (Point 2 3) = 5 \<and>
   calculate_entity_length (circle_entity ''CUT'' (Point 2 3) 5)
     (get_entity_points (circle_entity ''CUT'' (Point 2 3) 5)) = 10 * pi"
proof -
  let ?e = "circle_entity ''CUT'' (Point 2 3) 5"
  have t: "dxftype ?e = ''CIRCLE''" and c: "dxf_center ?e = Inr (Point 2 3)"
    and r: "dxf_radius ?e = Inr 5"
    by (simp_all add: fixture_defs)
  note th = circle_sampling [OF t c r]
  from th have len: "length (get_entity_points ?e) = 16"
    by blast
  from th have nth: "\<forall>i<16. get_entity_points ?e ! i =
      Point (px (Point 2 3) + 5 * cos (2 * pi * real i / 16))
            (py (Point 2 3) + 5 * sin (2 * pi * real i / 16))"
    by blast
  from nth have n0: "get_entity_points ?e ! 0 = Point 7 3"
    by simp
  from nth have "get_entity_points ?e ! 4 =
      Point (px (Point 2 3) + 5 * cos (2 * pi * real 4 / 16))
            (py (Point 2 3) + 5 * sin (2 * pi * real 4 / 16))"
    by (rule allE [where x = 4]) simp
  then have n4: "get_entity_points ?e ! 4 = Point 2 8"
    by simp
  from nth have "get_entity_points ?e ! 8 =
      Point (px (Point 2 3) + 5 * cos (2 * pi * real 8 / 16))
            (py (Point 2 3) + 5 * sin (2 * pi * real 8 / 16))"
    by (rule allE [where x = 8]) simp
  then have n8: "get_entity_points ?e ! 8 = Point (- 3) 3"
    by simp
  have mem: "Point 2 8 \<in> set (get_entity_points ?e)"
    using n4 len nth_mem [of 4 "get_entity_points ?e"] by simp
  from th have "0 \<le> (5::real) \<longrightarrow> (\<forall>p\<in>set (get_entity_points ?e). distance_to p (Point 2 3) = 5)"
    by blast
  with mem have d: "distance_to (Point 2 8) (Point 2 3) = 5"
    by simp
  from th have l: "calculate_entity_length ?e (get_entity_points ?e) = 10 * pi"
    by simp
  from t c r len n0 n4 n8 mem d l show ?thesis
    by blast
qed

text \<open>
  Claim C6. An ARC whose centre, radius and two angles can be read is sampled to exactly 17
  points, the \<open>i\<close>-th at angle \<open>a + (b - a) i / 16\<close>, where \<open>a\<close> and \<open>b\<close> are the start and end
  angles converted from degrees to radians and \<open>b - a\<close> is taken as it is, with no reduction
  modulo a full turn; the first and the last point are the positions at \<open>a\<close> and at \<open>b\<close>; and
  the length reported is the closed form \<open>\<bar>b - a\<bar> r\<close>.
\<close>

theorem arc_sampling:
  assumes "dxftype e = ''ARC''" and "dxf_center e = Inr c" and "dxf_radius e = Inr r"
    and "dxf_start_angle e = Inr sa" and "dxf_end_angle e = Inr ea"
  shows "length (get_entity_points e) = 17 \<and>
         (\<forall>i<17. get_entity_points e ! i =
            Point (px c + r * cos (radians sa + (radians ea - radians sa) * real i / 16))
                  (py c + r * sin (radians sa + (radians ea - radians sa) * real i / 16))) \<and>
         radians sa = sa * pi / 180 \<and> radians ea = ea * pi / 180 \<and>
         hd (get_entity_points e) =
            Point (px c + r * cos (radians sa)) (py c + r * sin (radians sa)) \<and>
         last (get_entity_points e) =
            Point (px c + r * cos (radians ea)) (py c + r * sin (radians ea)) \<and>
         calculate_entity_length e (get_entity_points e) = \<bar>radians ea - radians sa\<bar> * r"
proof -
  let ?a = "radians sa" and ?b = "radians ea"
  have pts: "get_entity_points e = arc_points c r ?a ?b"
    using assms by (simp add: get_entity_points_def)
  have len: "length (arc_points c r ?a ?b) = 17"
    by (simp add: arc_points_def)
  have nth: "arc_points c r ?a ?b ! i =
      Point (px c + r * cos (?a + (?b - ?a) * real i / 16))
            (py c + r * sin (?a + (?b - ?a) * real i / 16))"
    if "i < 17" for i
  proof -
    have "[0..<16 + 1] ! i = i"
      using that by (simp only: nth_upt)
    moreover have "i < length [0..<16 + 1]"
      using that by (simp only: length_upt)
    ultimately show ?thesis
      unfolding arc_points_def by (simp only: nth_map Let_def)
  qed
  have ne: "arc_points c r ?a ?b \<noteq> []"
    using len by auto
  have first: "hd (arc_points c r ?a ?b) = Point (px c + r * cos ?a) (py c + r * sin ?a)"
    using nth [of 0] ne by (simp add: hd_conv_nth)
  have e16: "?a + (?b - ?a) * real (16::nat) / 16 = ?b"
    by (simp add: diff_divide_distrib)
  have "last (arc_points c r ?a ?b) = arc_points c r ?a ?b ! 16"
    using ne len by (simp add: last_conv_nth)
  also have "\<dots> = Point (px c + r * cos (?a + (?b - ?a) * real (16::nat) / 16))
                         (py c + r * sin (?a + (?b - ?a) * real (16::nat) / 16))"
    by (rule nth) simp
  finally have final:
    "last (arc_points c r ?a ?b) = Point (px c + r * cos ?b) (py c + r * sin ?b)"
    by (simp only: e16)
  have clen: "calculate_entity_length e pts = \<bar>?b - ?a\<bar> * r" for pts
    using assms by (simp add: calculate_entity_length_def)
  have rad: "radians sa = sa * pi / 180" "radians ea = ea * pi / 180"
    by (simp_all add: radians_def)
  show ?thesis
    unfolding pts using len nth first final clen rad by blast
qed

theorem arc_sampling_witness:
  "dxftype (arc_entity ''CUT'' (Point 2 3) 5 350 10) = ''ARC'' \<and>
   dxf_center (arc_entity ''CUT'' (Point 2 3) 5 350 10) = Inr (Point 2 3) \<and>
   dxf_radius (arc_entity ''CUT'' (Point 2 3) 5 350 10) = Inr 5 \<and>
   dxf_start_angle (arc_entity ''CUT'' (Point 2 3) 5 350 10) = Inr 350 \<and>
   dxf_end_angle (arc_entity ''CUT'' (Point 2 3) 5 350 10) = Inr 10 \<and>
   length (get_entity_points (arc_entity ''CUT'' (Point 2 3) 5 350 10)) = 17 \<and>
   get_entity_points (arc_entity ''CUT'' (Point 2 3) 5 350 10) ! 8 = Point (- 3) 3 \<and>
   calculate_entity_length (arc_entity ''CUT'' (Point 2 3) 5 350 10)
     (get_entity_points (arc_entity ''CUT'' (Point 2 3) 5 350 10)) = 85 * pi / 9"
proof -
  let ?e = "arc_entity ''CUT'' (Point 2 3) 5 350 10"
  have t: "dxftype ?e = ''ARC''" and c: "dxf_center ?e = Inr (Point 2 3)"
    and r: "dxf_radius ?e = Inr 5" and sa: "dxf_start_angle ?e = Inr 350"
    and ea: "dxf_end_angle ?e = Inr 10"
    by (simp_all add: fixture_defs)
  note th = arc_sampling [OF t c r sa ea]
  from th have len: "length (get_entity_points ?e) = 17"
    by blast
  from th have nth: "\<forall>i<17. get_entity_points ?e ! i =
      Point (px (Point 2 3) + 5 * cos (radians 350 + (radians 10 - radians 350) * real i / 16))
            (py (Point 2 3) + 5 * sin (radians 350 + (radians 10 - radians 350) * real i / 16))"
    by blast
  from nth have "get_entity_points ?e ! 8 =
      Point (px (Point 2 3) + 5 * cos (radians 350 + (radians 10 - radians 350) * real 8 / 16))
            (py (Point 2 3) + 5 * sin (radians 350 + (radians 10 - radians 350) * real 8 / 16))"
    by (rule allE [where x = 8]) simp
  moreover have "radians 350 + (radians 10 - radians 350) * real 8 / 16 = pi"
    by (simp add: radians_def)
  ultimately have n8: "get_entity_points ?e ! 8 = Point (- 3) 3"
    by simp
  from th have "calculate_entity_length ?e (get_entity_points ?e) = \<bar>radians 10 - radians 350\<bar> * 5"
    by blast
  moreover have "\<bar>radians 10 - radians 350\<bar> * 5 = 85 * pi / 9"
    by (simp add: radians_def)
  ultimately have l: "calculate_entity_length ?e (get_entity_points ?e) = 85 * pi / 9"
    by simp
  from t c r sa ea len n8 l show ?thesis
    by blast
qed

section \<open>The loop over the entities\<close>

lemma process_entities_append:
  "process_entities dc md (es1 @ es2) st =
     (case process_entities dc md es1 st of
        Inl ex \<Rightarrow> Inl ex
      | Inr st' \<Rightarrow> process_entities dc md es2 st')"
  by (induction es1 arbitrary: st) (simp_all add: Let_def split: prod.split sum.split)

lemma process_entities_skip:
  "get_entity_points e = [] \<Longrightarrow>
   process_entities dc md (e # rest) st = process_entities dc md rest st"
  by simp

lemma all_sample_points_skip:
  "get_entity_points e = [] \<Longrightarrow> all_sample_points (es1 @ e # es2) = all_sample_points (es1 @ es2)"
  by (simp add: all_sample_points_def)

lemma get_design_statistics_skip:
  "get_entity_points e = [] \<Longrightarrow>
   get_design_statistics (es1 @ e # es2) = get_design_statistics (es1 @ es2)"
  by (simp add: get_design_statistics_def all_sample_points_skip)

text \<open>
  One round of the loop that ends well: the entity is skipped, or a record with its points
  and its length is appended to the phantom list, or to the valid list.
\<close>

lemma process_entities_Cons_Inr:
  assumes "process_entities dc md (e # es) st = Inr st'"
  obtains
    (skipped) "\<not> recognized (dxftype e) \<or> get_entity_points e = []"
      and "process_entities dc md es st = Inr st'"
  | (phantom) pe where "recognized (dxftype e)" and "get_entity_points e \<noteq> []"
      and "fst (is_phantom_entity e (get_entity_points e) dc md)"
      and "points pe = get_entity_points e" and "\<not> is_valid pe"
      and "length_mm pe = calculate_entity_length e (get_entity_points e)"
      and "process_entities dc md es (st\<lparr>phantom_entities := phantom_entities st @ [pe]\<rparr>) =
           Inr st'"
      and "rejection_reason pe = Some (snd (is_phantom_entity e (get_entity_points e) dc md))"
  | (valid) pe where "recognized (dxftype e)" and "get_entity_points e \<noteq> []"
      and "\<not> fst (is_phantom_entity e (get_entity_points e) dc md)"
      and "points pe = get_entity_points e" and "is_valid pe"
      and "length_mm pe = calculate_entity_length e (get_entity_points e)"
      and "process_entities dc md es (st\<lparr>valid_entities := valid_entities st @ [pe]\<rparr>) =
           Inr st'"
proof (cases "recognized (dxftype e) \<and> get_entity_points e \<noteq> []")
  case False
  then have "process_entities dc md (e # es) st = process_entities dc md es st"
    by auto
  with assms False skipped show ?thesis
    by simp
next
  case True
  obtain l where l: "dxf_layer e = Inr l"
    using assms True by (cases "dxf_layer e") (simp_all add: Let_def split: prod.splits)
  obtain ph reason where v: "is_phantom_entity e (get_entity_points e) dc md = (ph, reason)"
    by fastforce
  define pe where "pe = \<lparr>entity_type = dxftype e, points = get_entity_points e,
                  length_mm = calculate_entity_length e (get_entity_points e), layer = l,
                  is_valid = \<not> ph, rejection_reason = (if ph then Some reason else None)\<rparr>"
  have fields: "points pe = get_entity_points e" "is_valid pe = (\<not> ph)"
    "length_mm pe = calculate_entity_length e (get_entity_points e)"
    "rejection_reason pe = (if ph then Some reason else None)"
    by (simp_all add: pe_def)
  have step: "process_entities dc md (e # es) st =
        (if ph then process_entities dc md es (st\<lparr>phantom_entities := phantom_entities st @ [pe]\<rparr>)
         else process_entities dc md es (st\<lparr>valid_entities := valid_entities st @ [pe]\<rparr>))"
    using True l v by (simp add: Let_def pe_def)
  show ?thesis
  proof (cases ph)
    case True
    with assms step have
      "process_entities dc md es (st\<lparr>phantom_entities := phantom_entities st @ [pe]\<rparr>) = Inr st'"
      by simp
    with \<open>recognized (dxftype e) \<and> get_entity_points e \<noteq> []\<close> v fields True show ?thesis
      by (intro phantom [of pe]) simp_all
  next
    case False
    with assms step have
      "process_entities dc md es (st\<lparr>valid_entities := valid_entities st @ [pe]\<rparr>) = Inr st'"
      by simp
    with \<open>recognized (dxftype e) \<and> get_entity_points e \<noteq> []\<close> v fields False show ?thesis
      by (intro valid [of pe]) simp_all
  qed
qed

lemma process_entities_points_nonempty:
  assumes "process_entities dc md es st = Inr st'"
    and "\<forall>pe\<in>set (valid_entities st @ phantom_entities st). points pe \<noteq> []"
  shows "\<forall>pe\<in>set (valid_entities st' @ phantom_entities st'). points pe \<noteq> []"
  using assms
proof (induction es arbitrary: st)
  case Nil
  then show ?case by simp
next
  case (Cons e es)
  from Cons.prems(1) show ?case
  proof (cases rule: process_entities_Cons_Inr)
    case skipped
    from skipped(2) Cons.prems(2) show ?thesis
      by (rule Cons.IH)
  next
    case (phantom pe)
    from phantom(7) show ?thesis
      by (rule Cons.IH) (use Cons.prems(2) phantom(2,4) in simp)
  next
    case (valid pe)
    from valid(7) show ?thesis
      by (rule Cons.IH) (use Cons.prems(2) valid(2,4) in simp)
  qed
qed

lemma process_entities_count:
  assumes "process_entities dc md es st = Inr st'"
  shows "length (valid_entities st') + length (phantom_entities st') =
         length (valid_entities st) + length (phantom_entities st) +
         length (filter (\<lambda>e. recognized (dxftype e) \<and> get_entity_points e \<noteq> []) es)"
  using assms
proof (induction es arbitrary: st)
  case Nil
  then show ?case by simp
next
  case (Cons e es)
  from Cons.prems show ?case
  proof (cases rule: process_entities_Cons_Inr)
    case skipped
    from Cons.IH [OF skipped(2)] skipped(1) show ?thesis
      by simp
  next
    case (phantom pe)
    from Cons.IH [OF phantom(7)] phantom(1,2) show ?thesis
      by simp
  next
    case (valid pe)
    from Cons.IH [OF valid(7)] valid(1,2) show ?thesis
      by simp
  qed
qed



section \<open>The result record\<close>

lemma process_dxf_file_with_Inr:
  assumes "process_dxf_file_with rnd (Inr es) = Inr r"
  obtains st where
    "process_entities (fst (get_design_statistics es)) (snd (get_design_statistics es)) es
       \<lparr>valid_entities = [], phantom_entities = []\<rparr> = Inr st"
    and "valid r = valid_entities st" and "phantom r = phantom_entities st"
    and "total_entities (stats r) = length es"
    and "n_valid_entities (stats r) = length (valid_entities st)"
    and "n_phantom_entities (stats r) = length (phantom_entities st)"
    and "design_center (stats r) = fst (get_design_statistics es)"
    and "max_design_dimension (stats r) = snd (get_design_statistics es)"
    and "bbox r = calculate_bounding_box (valid_entities st)"
    and "total_mm (cut r) = rnd (sum_list (map length_mm (valid_entities st))) 2"
    and "total_m (cut r) = rnd (sum_list (map length_mm (valid_entities st)) / 1000) 3"
proof -
  let ?dc = "fst (get_design_statistics es)" and ?md = "snd (get_design_statistics es)"
  let ?run = "process_entities ?dc ?md es \<lparr>valid_entities = [], phantom_entities = []\<rparr>"
  have unfolded: "process_dxf_file_with rnd (Inr es) =
     (case ?run of
        Inl ex \<Rightarrow> Inl ex
      | Inr self \<Rightarrow>
          Inr \<lparr>stats = \<lparr>total_entities = length es,
                        n_valid_entities = length (valid_entities self),
                        n_phantom_entities = length (phantom_entities self),
                        design_center = ?dc,
                        max_design_dimension = ?md\<rparr>,
               bbox = calculate_bounding_box (valid_entities self),
               cut = \<lparr>total_mm = rnd (sum_list (map length_mm (valid_entities self))) 2,
                      total_m = rnd (sum_list (map length_mm (valid_entities self)) / 1000) 3\<rparr>,
               valid = valid_entities self,
               phantom = phantom_entities self\<rparr>)"
    by (simp add: process_dxf_file_with_def split_beta Let_def split: sum.split)
  show ?thesis
  proof (cases ?run)
    case (Inl ex)
    with assms unfolded show ?thesis by simp
  next
    case (Inr st)
    with assms unfolded have
      "r = \<lparr>stats = \<lparr>total_entities = length es,
                      n_valid_entities = length (valid_entities st),
                      n_phantom_entities = length (phantom_entities st),
                      design_center = ?dc,
                      max_design_dimension = ?md\<rparr>,
             bbox = calculate_bounding_box (valid_entities st),
             cut = \<lparr>total_mm = rnd (sum_list (map length_mm (valid_entities st))) 2,
                    total_m = rnd (sum_list (map length_mm (valid_entities st)) / 1000) 3\<rparr>,
             valid = valid_entities st,
             phantom = phantom_entities st\<rparr>"
      by simp
    then show ?thesis
      using Inr by (intro that [of st]) simp_all
  qed
qed

lemma process_dxf_file_Inr:
  assumes "process_dxf_file (Inr es) = Inr r"
  obtains st where
    "process_entities (fst (get_design_statistics es)) (snd (get_design_statistics es)) es
       \<lparr>valid_entities = [], phantom_entities = []\<rparr> = Inr st"
    and "valid r = valid_entities st" and "phantom r = phantom_entities st"
    and "total_entities (stats r) = length es"
    and "n_valid_entities (stats r) = length (valid_entities st)"
    and "n_phantom_entities (stats r) = length (phantom_entities st)"
    and "design_center (stats r) = fst (get_design_statistics es)"
    and "max_design_dimension (stats r) = snd (get_design_statistics es)"
    and "bbox r = calculate_bounding_box (valid_entities st)"
    and "total_mm (cut r) = py_round (sum_list (map length_mm (valid_entities st))) 2"
    and "total_m (cut r) = py_round (sum_list (map length_mm (valid_entities st)) / 1000) 3"
  using assms unfolding process_dxf_file_def by (rule process_dxf_file_with_Inr)

section \<open>A sample run\<close>

lemma sqrt_81: "sqrt 81 = 9"
  by (rule real_sqrt_unique) simp_all

lemma line_entity_points:
  "get_entity_points (line_entity l s t) = [s, t]"
  by (simp add: get_entity_points_def fixture_defs)

lemma text_not_recognized: "\<not> recognized (dxftype (blank_entity ''TEXT'' l))"
  by (simp add: recognized_def fixture_defs)

lemma line_recognized: "recognized ''LINE''"
  by (simp add: recognized_def)

lemma empty_polyline_points: "get_entity_points (lwpolyline_entity l []) = []"
  by (simp add: get_entity_points_def fixture_defs)

lemma empty_polyline_recognized: "recognized (dxftype (lwpolyline_entity l vs))"
  by (simp add: recognized_def fixture_defs)

lemma line_entity_layer: "dxf_layer (line_entity l s t) = Inr l"
  by (simp add: fixture_defs)

lemma line_entity_type: "dxftype (line_entity l s t) = ''LINE''"
  by (simp add: fixture_defs)

lemma sample_statistics: "get_design_statistics sample_drawing = (Point (11 / 2) 1, 9)"
  by (simp add: get_design_statistics_def all_sample_points_def sample_drawing_def
        line_entity_points line_entity_type line_recognized text_not_recognized empty_polyline_points
        empty_polyline_recognized py_min_def py_max_def)

lemma sample_distance: "distance_to_call (Point 1 1) (Point 10 1) = Inr 9"
  by (simp add: distance_to_call_small distance_to_def sqrt_81)

lemma sample_centre_distance: "distance_to_call (Point (11 / 2) 1) (Point (11 / 2) 1) = Inr 0"
  by (simp add: distance_to_call_small distance_to_def)

lemma sample_valid_line:
  "is_phantom_entity (line_entity ''CUT'' (Point 1 1) (Point 10 1)) [Point 1 1, Point 10 1]
     (Point (11 / 2) 1) 9 = (False, ''Entidad v'' @ [CHR 0xE1] @ ''lida'')"
  by (simp add: is_phantom_entity_def phantom_rules_def line_rules_def sample_distance
        sample_centre_distance fixture_defs upper_def char_upper_def phantom_layers_def)

lemma sample_phantom_line:
  "is_phantom_entity (line_entity ''DEFPOINTS'' (Point 1 1) (Point 10 1)) [Point 1 1, Point 10 1]
     (Point (11 / 2) 1) 9 = (True, ''Capa fantasma: DEFPOINTS'')"
  by (simp add: is_phantom_entity_def phantom_rules_def
        fixture_defs upper_def char_upper_def phantom_layers_def)

lemma sample_line_length:
  "calculate_entity_length (line_entity l (Point 1 1) (Point 10 1)) [Point 1 1, Point 10 1] = 9"
  by (simp add: calculate_entity_length_def sample_distance fixture_defs)

lemma sample_loop:
  "process_entities (Point (11 / 2) 1) 9 sample_drawing
     \<lparr>valid_entities = [], phantom_entities = []\<rparr> =
   Inr \<lparr>valid_entities =
          [\<lparr>entity_type = ''LINE'', points = [Point 1 1, Point 10 1], length_mm = 9,
            layer = ''CUT'', is_valid = True, rejection_reason = None\<rparr>],
        phantom_entities =
          [\<lparr>entity_type = ''LINE'', points = [Point 1 1, Point 10 1], length_mm = 9,
            layer = ''DEFPOINTS'', is_valid = False,
            rejection_reason = Some ''Capa fantasma: DEFPOINTS''\<rparr>]\<rparr>"
  by (simp add: sample_drawing_def line_entity_points line_recognized text_not_recognized
        empty_polyline_points empty_polyline_recognized sample_valid_line sample_phantom_line
        sample_line_length line_entity_layer line_entity_type Let_def)

lemma py_round_0: "py_round 0 n = 0"
  by (simp add: py_round_def round_half_even_def)

lemma sample_run: "process_dxf_file (Inr sample_drawing) = Inr sample_result"
proof -
  have len: "length sample_drawing = 4"
    by (simp add: sample_drawing_def)
  have r2: "py_round 9 2 = 9" and r3: "py_round (9 / 1000) 3 = 9 / 1000"
    by (simp_all add: py_round_def round_half_even_def Let_def)
  show ?thesis
    by (simp add: process_dxf_file_unfold sample_statistics sample_loop len r2 r3
          calculate_bounding_box_def py_min_def py_max_def sample_result_def)
qed

section \<open>Totals and counts\<close>





text \<open>
  Claim C10. When the analysis succeeds, \<open>total_entities\<close> is the number of input entities, the
  two other counts are the lengths of the two lists, and their sum is at most
  \<open>total_entities\<close>; it is smaller as soon as the input holds an entity of a type that is not
  recognized or an entity that is sampled to no point.
\<close>

theorem total_entities_bound:
  assumes "process_dxf_file (Inr es) = Inr r"
  shows "total_entities (stats r) = length es \<and>
         n_valid_entities (stats r) = length (valid r) \<and>
         n_phantom_entities (stats r) = length (phantom r) \<and>
         n_valid_entities (stats r) + n_phantom_entities (stats r) \<le> total_entities (stats r) \<and>
         ((\<exists>e\<in>set es. \<not> recognized (dxftype e) \<or> get_entity_points e = []) \<longrightarrow>
            n_valid_entities (stats r) + n_phantom_entities (stats r) < total_entities (stats r))"
proof -
  let ?kept = "filter (\<lambda>e. recognized (dxftype e) \<and> get_entity_points e \<noteq> []) es"
  from assms obtain st where
    run: "process_entities (fst (get_design_statistics es)) (snd (get_design_statistics es)) es
            \<lparr>valid_entities = [], phantom_entities = []\<rparr> = Inr st"
    and v: "valid r = valid_entities st" and p: "phantom r = phantom_entities st"
    and t: "total_entities (stats r) = length es"
    and nv: "n_valid_entities (stats r) = length (valid_entities st)"
    and np: "n_phantom_entities (stats r) = length (phantom_entities st)"
    by (rule process_dxf_file_Inr)
  from process_entities_count [OF run]
  have count: "length (valid_entities st) + length (phantom_entities st) = length ?kept"
    by simp
  have le: "length ?kept \<le> length es"
    by (rule length_filter_le)
  have less: "length ?kept < length es"
    if "\<exists>e\<in>set es. \<not> recognized (dxftype e) \<or> get_entity_points e = []"
  proof -
    from that obtain e where "e \<in> set es"
      and "\<not> (recognized (dxftype e) \<and> get_entity_points e \<noteq> [])"
      by blast
    then show ?thesis
      by (rule length_filter_less)
  qed
  from t nv np v p count le less show ?thesis
    by simp
qed

theorem total_entities_bound_witness:
  "process_dxf_file (Inr sample_drawing) = Inr sample_result \<and>
   \<not> recognized (dxftype (blank_entity ''TEXT'' ''0'')) \<and>
   blank_entity ''TEXT'' ''0'' \<in> set sample_drawing \<and>
   get_entity_points (lwpolyline_entity ''CUT'' []) = [] \<and>
   lwpolyline_entity ''CUT'' [] \<in> set sample_drawing \<and>
   n_valid_entities (stats sample_result) + n_phantom_entities (stats sample_result) <
     total_entities (stats sample_result) \<and>
   total_entities (stats sample_result) = 4 \<and>
   n_valid_entities (stats sample_result) = 1 \<and>
   n_phantom_entities (stats sample_result) = 1"
proof -
  have t: "\<not> recognized (dxftype (blank_entity ''TEXT'' ''0''))"
    by (rule text_not_recognized)
  have m: "blank_entity ''TEXT'' ''0'' \<in> set sample_drawing"
    and m': "lwpolyline_entity ''CUT'' [] \<in> set sample_drawing"
    by (simp_all add: sample_drawing_def)
  from t m have ex: "\<exists>e\<in>set sample_drawing. \<not> recognized (dxftype e) \<or> get_entity_points e = []"
    by blast
  from total_entities_bound [OF sample_run] ex
  have "n_valid_entities (stats sample_result) + n_phantom_entities (stats sample_result) <
          total_entities (stats sample_result)"
    by blast
  moreover have "total_entities (stats sample_result) = 4"
    "n_valid_entities (stats sample_result) = 1" "n_phantom_entities (stats sample_result) = 1"
    by (simp_all add: sample_result_def)
  ultimately show ?thesis
    using sample_run t m m' empty_polyline_points by blast
qed

section \<open>Drawings without recognized entities\<close>

lemma unrecognized_loop:
  "\<forall>e\<in>set es. \<not> recognized (dxftype e) \<Longrightarrow> process_entities dc md es st = Inr st"
  by (induction es) simp_all

lemma unrecognized_points:
  "\<forall>e\<in>set es. \<not> recognized (dxftype e) \<Longrightarrow> all_sample_points es = []"
  by (induction es) (simp_all add: all_sample_points_def)

text \<open>
  Claim C9, as the code has it. For an input none of whose entities has a recognized type the
  analysis succeeds: the design centre is \<open>(0, 0)\<close>, the design dimension is 1000, the bounding
  box is \<open>(0, 0, 0, 0)\<close> with area 0, both totals are 0, both lists are empty and the valid and
  phantom counts are 0. The count \<open>total_entities\<close> is the number of input entities.
\<close>

theorem empty_design:
  assumes "\<forall>e\<in>set es. \<not> recognized (dxftype e)"
  shows "process_dxf_file (Inr es) = Inr (empty_result (length es)) \<and>
         area (bbox (empty_result (length es))) = 0"
proof -
  have "get_design_statistics es = (Point 0 0, 1000)"
    using assms by (simp add: get_design_statistics_def unrecognized_points)
  moreover have "process_entities (Point 0 0) 1000 es \<lparr>valid_entities = [], phantom_entities = []\<rparr> =
      Inr \<lparr>valid_entities = [], phantom_entities = []\<rparr>"
    using assms by (rule unrecognized_loop)
  ultimately show ?thesis
    by (simp add: process_dxf_file_unfold empty_result_def calculate_bounding_box_def py_round_0
          area_def width_def height_def)
qed

theorem empty_design_witness:
  "\<not> recognized (dxftype (blank_entity ''SPLINE'' ''0'')) \<and>
   \<not> recognized (dxftype (blank_entity ''TEXT'' ''0'')) \<and>
   process_dxf_file (Inr [blank_entity ''SPLINE'' ''0'', blank_entity ''TEXT'' ''0'']) =
     Inr (empty_result 2) \<and>
   n_valid_entities (stats (empty_result 2)) = 0 \<and>
   n_phantom_entities (stats (empty_result 2)) = 0 \<and>
   design_center (stats (empty_result 2)) = Point 0 0 \<and>
   max_design_dimension (stats (empty_result 2)) = 1000 \<and>
   bbox (empty_result 2) = BoundingBox 0 0 0 0"
proof -
  have s: "\<not> recognized (dxftype (blank_entity ''SPLINE'' ''0''))"
    and t: "\<not> recognized (dxftype (blank_entity ''TEXT'' ''0''))"
    by (simp_all add: recognized_def fixture_defs)
  then have h: "\<forall>e\<in>set [blank_entity ''SPLINE'' ''0'', blank_entity ''TEXT'' ''0''].
                  \<not> recognized (dxftype e)"
    by simp
  from empty_design [OF h] s t show ?thesis
    by (simp add: empty_result_def)
qed

text \<open>
  Claim C9, as stated, fails on the count of all entities: a drawing that holds one TEXT entity
  has no recognized primitive, and its \<open>total_entities\<close> is 1.
\<close>

theorem empty_design_counts_counterexample:
  "\<not> recognized (dxftype (blank_entity ''TEXT'' ''0'')) \<and>
   process_dxf_file (Inr [blank_entity ''TEXT'' ''0'']) = Inr (empty_result 1) \<and>
   total_entities (stats (empty_result 1)) = 1 \<and>
   total_entities (stats (empty_result 1)) \<noteq> 0"
  by (simp add: text_not_recognized process_dxf_file_unfold get_design_statistics_def
        all_sample_points_def empty_result_def calculate_bounding_box_def py_round_0)

section \<open>Entities that are sampled to no point\<close>

lemma no_points_verdict:
  "is_phantom_entity e [] dc md = (True, ''Sin puntos v'' @ [CHR 0xE1] @ ''lidos'')"
  by (simp add: is_phantom_entity_def)

text \<open>
  Claim C1, as the code has it. The classifier, asked about an entity of a recognized type with
  an empty point sequence, answers phantom with the reason \<^verbatim>\<open>Sin puntos validos\<close> (with
  a-acute). The loop does not ask it: an entity that is sampled to no point is skipped, so the
  run with the entity ends as the run without it does, with the same exception or with the
  same result but for \<open>total_entities\<close>, which counts it; and no entry of either list has the
  points of the entity.
\<close>

theorem empty_sampling_skipped:
  assumes "recognized (dxftype e)" and "get_entity_points e = []"
  shows "is_phantom_entity e (get_entity_points e) dc md =
           (True, ''Sin puntos v'' @ [CHR 0xE1] @ ''lidos'') \<and>
         (case process_dxf_file (Inr (es1 @ es2)) of
            Inl ex \<Rightarrow> process_dxf_file (Inr (es1 @ e # es2)) = Inl ex
          | Inr r \<Rightarrow>
              process_dxf_file (Inr (es1 @ e # es2)) =
                Inr (r\<lparr>stats := (stats r)\<lparr>total_entities := Suc (total_entities (stats r))\<rparr>\<rparr>)) \<and>
         (\<forall>r. process_dxf_file (Inr (es1 @ e # es2)) = Inr r \<longrightarrow>
              (\<forall>pe\<in>set (valid r @ phantom r). points pe \<noteq> get_entity_points e))"
proof -
  let ?with = "es1 @ e # es2" and ?without = "es1 @ es2"
  have verdict: "is_phantom_entity e (get_entity_points e) dc md =
                   (True, ''Sin puntos v'' @ [CHR 0xE1] @ ''lidos'')"
    by (simp only: assms(2) no_points_verdict)
  have st: "get_design_statistics ?with = get_design_statistics ?without"
    using assms(2) by (rule get_design_statistics_skip)
  have loop: "process_entities dc' md' ?with st0 = process_entities dc' md' ?without st0"
    for dc' md' st0
    by (simp only: process_entities_append process_entities_skip [OF assms(2)])
  have run: "(case process_dxf_file (Inr ?without) of
            Inl ex \<Rightarrow> process_dxf_file (Inr ?with) = Inl ex
          | Inr r \<Rightarrow>
              process_dxf_file (Inr ?with) =
                Inr (r\<lparr>stats := (stats r)\<lparr>total_entities := Suc (total_entities (stats r))\<rparr>\<rparr>))"
    unfolding process_dxf_file_unfold
    by (simp add: st loop split_beta Let_def split: sum.split)
  have neither: "\<forall>pe\<in>set (valid r @ phantom r). points pe \<noteq> get_entity_points e"
    if r: "process_dxf_file (Inr ?with) = Inr r" for r
  proof -
    from r obtain st' where
      "process_entities (fst (get_design_statistics ?with)) (snd (get_design_statistics ?with))
         ?with \<lparr>valid_entities = [], phantom_entities = []\<rparr> = Inr st'"
      and "valid r = valid_entities st'" and "phantom r = phantom_entities st'"
      by (rule process_dxf_file_Inr)
    with process_entities_points_nonempty [of _ _ ?with "\<lparr>valid_entities = [], phantom_entities = []\<rparr>" st']
    show ?thesis
      by (simp add: assms(2))
  qed
  from verdict run neither show ?thesis
    by blast
qed

theorem empty_sampling_skipped_witness:
  "recognized (dxftype (blank_entity ''CIRCLE'' ''CUT'')) \<and>
   get_entity_points (blank_entity ''CIRCLE'' ''CUT'') = [] \<and>
   is_phantom_entity (blank_entity ''CIRCLE'' ''CUT'')
     (get_entity_points (blank_entity ''CIRCLE'' ''CUT'')) (Point 0 0) 1000 =
     (True, ''Sin puntos v'' @ [CHR 0xE1] @ ''lidos'') \<and>
   process_dxf_file (Inr []) = Inr (empty_result 0) \<and>
   process_dxf_file (Inr [blank_entity ''CIRCLE'' ''CUT'']) = Inr (empty_result 1)"
proof -
  let ?e = "blank_entity ''CIRCLE'' ''CUT''"
  have t: "recognized (dxftype ?e)"
    by (simp add: recognized_def fixture_defs)
  have p: "get_entity_points ?e = []"
    by (simp add: get_entity_points_def fixture_defs)
  have base: "process_dxf_file (Inr []) = Inr (empty_result 0)"
    by (simp add: process_dxf_file_unfold get_design_statistics_def all_sample_points_def
          empty_result_def calculate_bounding_box_def py_round_0)
  from empty_sampling_skipped [OF t p, of "Point 0 0" 1000 "[]" "[]"] base
  have "is_phantom_entity ?e (get_entity_points ?e) (Point 0 0) 1000 =
          (True, ''Sin puntos v'' @ [CHR 0xE1] @ ''lidos'')"
    and "process_dxf_file (Inr [?e]) = Inr (empty_result 1)"
    by (simp_all add: empty_result_def)
  with t p base show ?thesis
    by blast
qed

text \<open>
  Claim C1, as stated, fails: a drawing that holds one polyline without vertices is analysed
  without error, and the phantom list of the result is empty.
\<close>

theorem empty_sampling_phantom_counterexample:
  "recognized (dxftype (lwpolyline_entity ''CUT'' [])) \<and>
   get_entity_points (lwpolyline_entity ''CUT'' []) = [] \<and>
   process_dxf_file (Inr [lwpolyline_entity ''CUT'' []]) = Inr (empty_result 1) \<and>
   phantom (empty_result 1) = [] \<and> valid (empty_result 1) = []"
  by (simp add: empty_polyline_recognized empty_polyline_points process_dxf_file_unfold
        get_design_statistics_def all_sample_points_def empty_result_def
        calculate_bounding_box_def py_round_0)

section \<open>Exceptions while classifying\<close>







section \<open>A run with an overflow\<close>














end
